theory Spec2Isabelle
  imports Complex_Main
begin

section \<open>Delta-time movement of dt\_example.py\<close>

text \<open>
  The program is one file, \<^verbatim>\<open>dt_example.py\<close>: a \<^verbatim>\<open>Player\<close> that keeps an exact
  position \<^verbatim>\<open>true_pos\<close> beside its integer pygame rectangle, and an \<^verbatim>\<open>App\<close> whose
  \<^verbatim>\<open>main_loop\<close> polls events, updates the player by the elapsed time and renders.

  Numbers. The coordinates of \<^verbatim>\<open>true_pos\<close>, the speed and the elapsed time are Python
  numbers (\<^verbatim>\<open>int\<close> at first, \<^verbatim>\<open>float\<close> once a tick has been divided by 1000.0). They are
  modelled by \<open>real\<close>: addition and multiplication are the exact ones, which is what
  Python does on its integers; the rounding of IEEE doubles is not modelled. The
  coordinates of a pygame rectangle are integers and are modelled by \<open>int\<close>; the C
  \<^verbatim>\<open>int\<close> range of pygame is not modelled.
\<close>

subsection \<open>pygame: numbers, rectangles, surfaces, keys and events\<close>

text \<open>
  pygame is a library the program imports; none of it is under the repository. Its
  operations that the program calls are written out here as the library computes them,
  one definition per operation, named after the pygame call. Of the conversion of a
  coordinate to an integer, the theorems for all inputs use only that it leaves a
  whole number as it is; the direction of the rounding shows in the examples alone.
\<close>

definition int_of_float :: "real \<Rightarrow> int" where
  \<comment> \<open>Modelled from the spec: the exact position is "rounded/truncated" to the integer
      display position. pygame converts a float coordinate with a C cast, which drops
      the fraction (truncation toward zero); an integer coordinate is taken as it is.\<close>
  "int_of_float v = (if 0 \<le> v then \<lfloor>v\<rfloor> else \<lceil>v\<rceil>)"

definition c_div :: "int \<Rightarrow> int \<Rightarrow> int" where
  \<comment> \<open>C's integer division, which truncates toward zero.\<close>
  "c_div a b = sgn a * sgn b * (\<bar>a\<bar> div \<bar>b\<bar>)"

record rect =
  r_x :: int
  r_y :: int
  r_w :: int
  r_h :: int

definition Rect :: "int \<Rightarrow> int \<Rightarrow> int \<Rightarrow> int \<Rightarrow> rect" where
  "Rect a b c d = \<lparr>r_x = a, r_y = b, r_w = c, r_h = d\<rparr>"

definition Rect_center :: "rect \<Rightarrow> int \<times> int" where
  \<comment> \<open>\<^verbatim>\<open>rect.center\<close> read: \<^verbatim>\<open>(x + (w >> 1), y + (h >> 1))\<close>.\<close>
  "Rect_center r = (r_x r + r_w r div 2, r_y r + r_h r div 2)"

definition Rect_set_center :: "real \<times> real \<Rightarrow> rect \<Rightarrow> rect" where
  \<comment> \<open>Modelled from the spec: the integer display rectangle is "derived" from the
      exact position. It is pygame's \<^verbatim>\<open>rect.center = (cx, cy)\<close>: both coordinates are
      converted to integers, then the rectangle is moved so that its center is there;
      its size is kept.\<close>
  "Rect_set_center c r =
     r\<lparr>r_x := int_of_float (fst c) - r_w r div 2,
       r_y := int_of_float (snd c) - r_h r div 2\<rparr>"

definition Rect_contains :: "rect \<Rightarrow> rect \<Rightarrow> bool" where
  \<comment> \<open>Modelled from the spec: "within the viewport". It is pygame's
      \<^verbatim>\<open>outer.contains(inner)\<close>: every edge of \<open>inner\<close> is inside \<open>outer\<close>, and its
      top-left corner is strictly before the right and bottom edges of \<open>outer\<close>.\<close>
  "Rect_contains outer inner \<longleftrightarrow>
     r_x outer \<le> r_x inner \<and> r_y outer \<le> r_y inner \<and>
     r_x outer + r_w outer \<ge> r_x inner + r_w inner \<and>
     r_y outer + r_h outer \<ge> r_y inner + r_h inner \<and>
     r_x outer + r_w outer > r_x inner \<and>
     r_y outer + r_h outer > r_y inner"

definition clamp_axis :: "int \<Rightarrow> int \<Rightarrow> int \<Rightarrow> int \<Rightarrow> int" where
  \<comment> \<open>One axis of \<^verbatim>\<open>clamp_ip\<close>: a rectangle at \<open>a\<close> of extent \<open>d\<close> is moved inside the
      range that starts at \<open>b\<close> and has extent \<open>e\<close>; one that is too large is centered.\<close>
  "clamp_axis a d b e =
     (if d \<ge> e then b + c_div e 2 - c_div d 2
      else if a < b then b
      else if a + d > b + e then b + e - d
      else a)"

definition Rect_clamp_ip :: "rect \<Rightarrow> rect \<Rightarrow> rect" where
  \<comment> \<open>Modelled from the spec: "clamps it to the nearest in-bounds position". It is
      pygame's \<^verbatim>\<open>r.clamp_ip(bounds)\<close>: \<open>r\<close> moved to be inside \<open>bounds\<close>, its size kept.\<close>
  "Rect_clamp_ip bounds r =
     r\<lparr>r_x := clamp_axis (r_x r) (r_w r) (r_x bounds) (r_w bounds),
       r_y := clamp_axis (r_y r) (r_h r) (r_y bounds) (r_h bounds)\<rparr>"

definition Rect_inflate :: "int \<Rightarrow> int \<Rightarrow> rect \<Rightarrow> rect" where
  \<comment> \<open>\<^verbatim>\<open>r.inflate(dx, dy)\<close>: a new rectangle, grown around the same center.\<close>
  "Rect_inflate dx dy r =
     \<lparr>r_x = r_x r - c_div dx 2, r_y = r_y r - c_div dy 2,
      r_w = r_w r + dx, r_h = r_h r + dy\<rparr>"

datatype color = Color string | RGBA int int int int

text \<open>
  A surface is modelled by its size, whether it has per-pixel alpha, and the drawing
  operations applied to it so far, the latest at the end of the list.
\<close>

datatype surface = Surface (surf_size: "int \<times> int") (surf_alpha: bool) (surf_ops: "draw_op list")
  and draw_op = Fill color | Ellipse color rect | Blit surface "int \<times> int"

definition new_Surface :: "int \<times> int \<Rightarrow> surface" where
  "new_Surface sz = Surface sz False []"

definition convert_alpha :: "surface \<Rightarrow> surface" where
  "convert_alpha s = Surface (surf_size s) True (surf_ops s)"

definition draw_on :: "draw_op \<Rightarrow> surface \<Rightarrow> surface" where
  "draw_on d s = Surface (surf_size s) (surf_alpha s) (surf_ops s @ [d])"

definition Surface_get_rect :: "surface \<Rightarrow> rect" where
  \<comment> \<open>\<^verbatim>\<open>surface.get_rect()\<close>: the surface's size, at the origin.\<close>
  "Surface_get_rect s = Rect 0 0 (fst (surf_size s)) (snd (surf_size s))"

definition Surface_blit :: "surface \<Rightarrow> rect \<Rightarrow> surface \<Rightarrow> surface" where
  \<comment> \<open>\<^verbatim>\<open>target.blit(source, dest)\<close> with a rectangle as \<^verbatim>\<open>dest\<close>: its top-left corner is
      where the source is drawn.\<close>
  "Surface_blit source dest target = draw_on (Blit source (r_x dest, r_y dest)) target"

datatype key = K_LEFT | K_RIGHT | K_UP | K_DOWN | K_other nat

datatype event = QUIT | KEYDOWN | KEYUP | OTHER nat

subsection \<open>Module constants\<close>

definition SCREEN_SIZE :: "int \<times> int" where
  "SCREEN_SIZE = (500, 500)"

definition TRANSPARENT :: color where
  "TRANSPARENT = RGBA 0 0 0 0"

definition BACKGROUND_COLOR :: color where
  "BACKGROUND_COLOR = Color ''darkslategrey''"

definition DIRECT_DICT :: "(key \<times> int \<times> int) list" where
  \<comment> \<open>The dictionary as an association list, in the order it is written. The loop of
      \<^verbatim>\<open>update\<close> visits every entry once; the sums it forms do not depend on the order.\<close>
  "DIRECT_DICT =
     [(K_LEFT, (-1, 0)),
      (K_RIGHT, (1, 0)),
      (K_UP, (0, -1)),
      (K_DOWN, (0, 1))]"

subsection \<open>Player\<close>

record player =
  image_surf :: surface
  rect :: rect
  true_pos :: "real \<times> real"
  speed :: real

definition Player_SIZE :: "int \<times> int" where
  "Player_SIZE = (100, 100)"

definition make_image :: surface where
  "make_image =
     (let image0 = convert_alpha (new_Surface Player_SIZE);
          image1 = draw_on (Fill TRANSPARENT) image0;
          r = Surface_get_rect image1;
          image2 = draw_on (Ellipse (Color ''black'') r) image1;
          image3 = draw_on (Ellipse (Color ''tomato'') (Rect_inflate (-12) (-12) r)) image2
      in image3)"

definition real_pair :: "int \<times> int \<Rightarrow> real \<times> real" where
  \<comment> \<open>\<^verbatim>\<open>list(rect.center)\<close>: the two integers, as the numbers of \<^verbatim>\<open>true_pos\<close>.\<close>
  "real_pair c = (real_of_int (fst c), real_of_int (snd c))"

definition Player_init :: "real \<times> real \<Rightarrow> real \<Rightarrow> player" where
  "Player_init pos spd =
     (let img = make_image;
          r = Rect_set_center pos (Surface_get_rect img)
      in \<lparr>image_surf = img, rect = r, true_pos = real_pair (Rect_center r), speed = spd\<rparr>)"

definition move_key :: "(key \<Rightarrow> bool) \<Rightarrow> real \<Rightarrow> real \<Rightarrow> real \<times> real \<Rightarrow> key \<times> int \<times> int \<Rightarrow> real \<times> real" where
  \<comment> \<open>The body of the loop of \<^verbatim>\<open>update\<close> for one entry of \<^verbatim>\<open>DIRECT_DICT\<close>.\<close>
  "move_key ks spd dt pos entry =
     (if ks (fst entry)
      then (fst pos + real_of_int (fst (snd entry)) * spd * dt,
            snd pos + real_of_int (snd (snd entry)) * spd * dt)
      else pos)"

definition integrate :: "(key \<Rightarrow> bool) \<Rightarrow> real \<Rightarrow> real \<Rightarrow> real \<times> real \<Rightarrow> real \<times> real" where
  \<comment> \<open>The loop \<^verbatim>\<open>for key in DIRECT_DICT\<close> of \<^verbatim>\<open>update\<close>.\<close>
  "integrate ks spd dt pos = foldl (move_key ks spd dt) pos DIRECT_DICT"

definition Player_clamp :: "rect \<Rightarrow> player \<Rightarrow> player" where
  "Player_clamp screen_rect p =
     (if \<not> Rect_contains screen_rect (rect p)
      then (let r = Rect_clamp_ip screen_rect (rect p)
            in p\<lparr>rect := r, true_pos := real_pair (Rect_center r)\<rparr>)
      else p)"

definition Player_move :: "(key \<Rightarrow> bool) \<Rightarrow> real \<Rightarrow> player \<Rightarrow> player" where
  \<comment> \<open>\<^verbatim>\<open>update\<close> up to its last line: the loop, then \<^verbatim>\<open>self.rect.center = self.true_pos\<close>.\<close>
  "Player_move ks dt p =
     (let pos = integrate ks (speed p) dt (true_pos p)
      in p\<lparr>true_pos := pos, rect := Rect_set_center pos (rect p)\<rparr>)"

definition Player_update :: "(key \<Rightarrow> bool) \<Rightarrow> rect \<Rightarrow> real \<Rightarrow> player \<Rightarrow> player" where
  "Player_update ks screen_rect dt p = Player_clamp screen_rect (Player_move ks dt p)"

definition Player_draw :: "surface \<Rightarrow> player \<Rightarrow> player \<times> surface" where
  \<comment> \<open>\<^verbatim>\<open>draw\<close> returns the player as it leaves it, and the surface drawn on.\<close>
  "Player_draw target p = (p, Surface_blit (image_surf p) (rect p) target)"

subsection \<open>App\<close>

text \<open>
  What the program reads from pygame in one pass of its main loop: the events that
  \<^verbatim>\<open>pg.event.get()\<close> returns, the keyboard state that \<^verbatim>\<open>pg.key.get_pressed()\<close> returns
  while these events are handled, and the milliseconds that \<^verbatim>\<open>clock.tick\<close> returns at
  the end of the pass.
\<close>

record frame =
  events :: "event list"
  pressed :: "key \<Rightarrow> bool"
  tick_ms :: int

record app =
  screen :: surface
  screen_rect :: rect
  fps :: int
  done_flag :: bool
  keys :: "key \<Rightarrow> bool"
  player :: player

definition display_set_mode :: "int \<times> int \<Rightarrow> surface" where
  \<comment> \<open>\<^verbatim>\<open>pg.display.set_mode(size)\<close>: the display surface, of that size.\<close>
  "display_set_mode sz = new_Surface sz"

definition App_init :: "surface \<Rightarrow> (key \<Rightarrow> bool) \<Rightarrow> app" where
  \<comment> \<open>\<open>display\<close> is \<^verbatim>\<open>pg.display.get_surface()\<close> and \<open>ks\<close> is \<^verbatim>\<open>pg.key.get_pressed()\<close> when the
      App is created. The clock is pygame's; its ticks come with the frames.\<close>
  "App_init display ks =
     (let sr = Surface_get_rect display
      in \<lparr>screen = display, screen_rect = sr, fps = 60, done_flag = False, keys = ks,
          player = Player_init (real_pair (Rect_center sr)) 300\<rparr>)"

definition handle_event :: "(key \<Rightarrow> bool) \<Rightarrow> app \<Rightarrow> event \<Rightarrow> app" where
  \<comment> \<open>The body of the loop of \<^verbatim>\<open>event_loop\<close> for one event.\<close>
  "handle_event now a ev =
     (if ev = QUIT then a\<lparr>done_flag := True\<rparr>
      else if ev = KEYDOWN \<or> ev = KEYUP then a\<lparr>keys := now\<rparr>
      else a)"

definition event_loop :: "event list \<Rightarrow> (key \<Rightarrow> bool) \<Rightarrow> app \<Rightarrow> app" where
  "event_loop evs now a = foldl (handle_event now) a evs"

definition App_update :: "real \<Rightarrow> app \<Rightarrow> app" where
  "App_update dt a = a\<lparr>player := Player_update (keys a) (screen_rect a) dt (player a)\<rparr>"

definition render :: "app \<Rightarrow> app" where
  \<comment> \<open>\<^verbatim>\<open>pg.display.update()\<close> shows the screen surface and changes nothing of the App.\<close>
  "render a =
     (let s = draw_on (Fill BACKGROUND_COLOR) (screen a);
          (p, s') = Player_draw s (player a)
      in a\<lparr>screen := s', player := p\<rparr>)"

text \<open>
  The calls that \<^verbatim>\<open>main_loop\<close> makes are recorded in the order it makes them, each with
  the value that \<^verbatim>\<open>self.done\<close> has when the call starts.
\<close>

datatype call = Tick | EventLoop | Update real | Render

type_synonym trace = "(bool \<times> call) list"

definition loop_body :: "frame \<Rightarrow> app \<times> real \<Rightarrow> (app \<times> real) \<times> trace" where
  \<comment> \<open>One pass through the body of the \<^verbatim>\<open>while\<close> loop, from the App and \<^verbatim>\<open>dt\<close> before it
      to the App and \<^verbatim>\<open>dt\<close> after it.\<close>
  "loop_body f s =
     (let a0 = fst s; dt = snd s;
          a1 = event_loop (events f) (pressed f) a0;
          a2 = App_update dt a1;
          a3 = render a2;
          dt' = real_of_int (tick_ms f) / 1000
      in ((a3, dt'),
          [(done_flag a0, EventLoop), (done_flag a1, Update dt),
           (done_flag a2, Render), (done_flag a3, Tick)]))"

text \<open>
  The loop runs for as long as pygame delivers frames. On a finite list of frames it
  either returns (\<open>Returned\<close>, with the App it leaves) or has used every frame and is
  about to start another pass (\<open>Running\<close>, with the App and the next \<^verbatim>\<open>dt\<close>).
\<close>

datatype loop_result = Returned app | Running app real


fun while_not_done :: "frame list \<Rightarrow> app \<times> real \<Rightarrow> loop_result \<times> trace" where
  "while_not_done [] s =
     (if done_flag (fst s) then (Returned (fst s), []) else (Running (fst s) (snd s), []))"
| "while_not_done (f # fs) s =
     (if done_flag (fst s) then (Returned (fst s), [])
      else (let (s', tr) = loop_body f s;
                (r, tr') = while_not_done fs s'
            in (r, tr @ tr')))"

definition main_loop :: "app \<Rightarrow> frame list \<Rightarrow> loop_result \<times> trace" where
  \<comment> \<open>The value of the first \<^verbatim>\<open>clock.tick\<close> is dropped by the program.\<close>
  "main_loop a fs =
     (let (r, tr) = while_not_done fs (a, 0)
      in (r, (done_flag a, Tick) # tr))"

definition main :: "(key \<Rightarrow> bool) \<Rightarrow> frame list \<Rightarrow> loop_result \<times> trace" where
  "main ks fs = main_loop (App_init (display_set_mode SCREEN_SIZE) ks) fs"

text \<open>The states of the App that a run of \<^verbatim>\<open>main\<close> goes through.\<close>

inductive reachable :: "app \<Rightarrow> bool" where
  created: "reachable (App_init (display_set_mode SCREEN_SIZE) ks)"
| polled: "reachable a \<Longrightarrow> reachable (event_loop evs now a)"
| updated: "reachable a \<Longrightarrow> reachable (App_update dt a)"
| rendered: "reachable a \<Longrightarrow> reachable (render a)"

subsection \<open>The notions the properties are stated with\<close>

definition held_directions :: "(key \<Rightarrow> bool) \<Rightarrow> (int \<times> int) list" where
  \<comment> \<open>The direction vectors of the directional keys that are held.\<close>
  "held_directions ks = map snd (filter (\<lambda>e. ks (fst e)) DIRECT_DICT)"

definition direction_sum :: "(key \<Rightarrow> bool) \<Rightarrow> int \<times> int" where
  \<comment> \<open>Their sum, coordinate by coordinate: the combined direction, not normalized.\<close>
  "direction_sum ks =
     (sum_list (map fst (held_directions ks)), sum_list (map snd (held_directions ks)))"

definition displacement :: "real \<times> real \<Rightarrow> real \<times> real \<Rightarrow> real \<times> real" where
  "displacement old new = (fst new - fst old, snd new - snd old)"

definition magnitude :: "real \<times> real \<Rightarrow> real" where
  "magnitude v = sqrt ((fst v)\<^sup>2 + (snd v)\<^sup>2)"

definition holding :: "key list \<Rightarrow> key \<Rightarrow> bool" where
  \<comment> \<open>The keyboard state in which exactly the keys of the list are held.\<close>
  "holding hs k = (k \<in> set hs)"


definition in_sync :: "player \<Rightarrow> bool" where
  \<comment> \<open>The display rectangle is the one derived from the exact position: its center is
      the exact position converted to integers.\<close>
  "in_sync p =
     (Rect_center (rect p) = (int_of_float (fst (true_pos p)), int_of_float (snd (true_pos p))))"

definition sized :: "player \<Rightarrow> bool" where
  \<comment> \<open>The rectangle of a player has the size of its image.\<close>
  "sized p = ((r_w (rect p), r_h (rect p)) = Player_SIZE)"

definition viewport :: rect where
  \<comment> \<open>The viewport of the program: the rectangle of the display that \<^verbatim>\<open>main\<close> opens,
      which the App keeps as \<^verbatim>\<open>screen_rect\<close>.\<close>
  "viewport = Surface_get_rect (display_set_mode SCREEN_SIZE)"

inductive player_state :: "player \<Rightarrow> bool" where
  \<comment> \<open>The states of a \<^verbatim>\<open>Player\<close> object: what its constructor and its methods make.\<close>
  constructed: "player_state (Player_init pos spd)"
| after_update: "player_state p \<Longrightarrow> player_state (Player_update ks sr dt p)"
| after_clamp: "player_state p \<Longrightarrow> player_state (Player_clamp sr p)"
| after_draw: "player_state p \<Longrightarrow> player_state (fst (Player_draw target p))"

definition one_held :: "(key \<Rightarrow> bool) \<Rightarrow> bool" where
  \<comment> \<open>Exactly one directional key is held.\<close>
  "one_held ks = (length (held_directions ks) = 1)"

definition perpendicular_held :: "(key \<Rightarrow> bool) \<Rightarrow> bool" where
  \<comment> \<open>Exactly two directional keys are held, and their directions are perpendicular.\<close>
  "perpendicular_held ks =
     (case held_directions ks of
        [u, v] \<Rightarrow> fst u * fst v + snd u * snd v = 0
      | _ \<Rightarrow> False)"

definition polls_quit :: "frame \<Rightarrow> bool" where
  "polls_quit f = (QUIT \<in> set (events f))"



definition pass_calls :: "frame \<times> real \<Rightarrow> trace" where
  \<comment> \<open>The calls of one pass that starts with the flag not set, for a frame and the
      elapsed time handed to its update: the flag is set from the event poll on when
      the frame polls QUIT.\<close>
  "pass_calls fd =
     (let q = polls_quit (fst fd)
      in [(False, EventLoop), (q, Update (snd fd)), (q, Render), (q, Tick)])"




subsection \<open>Concrete states and inputs\<close>

definition new_player :: player where
  \<comment> \<open>The player as the App creates it, at the center of the viewport.\<close>
  "new_player = Player_init (real_pair (Rect_center viewport)) 300"

definition edge_player :: player where
  \<comment> \<open>The player after the left key has been held for one second: at the left edge.\<close>
  "edge_player = Player_update (holding [K_LEFT]) viewport 1 new_player"


definition key_frame :: frame where
  "key_frame = \<lparr>events = [KEYDOWN], pressed = holding [K_LEFT, K_UP], tick_ms = 17\<rparr>"

section \<open>Properties\<close>

subsection \<open>Evaluating the library operations and the constants\<close>

lemma int_of_float_of_int [simp]: "int_of_float (real_of_int n) = n"
  by (simp add: int_of_float_def)

lemma Rect_center_set_center:
  "Rect_center (Rect_set_center c r) = (int_of_float (fst c), int_of_float (snd c))"
  by (simp add: Rect_center_def Rect_set_center_def)

lemma Rect_set_center_same:
  "Rect_center r = (int_of_float (fst c), int_of_float (snd c)) \<Longrightarrow> Rect_set_center c r = r"
  by (auto simp add: Rect_center_def Rect_set_center_def)

lemma viewport_eq: "viewport = Rect 0 0 500 500"
  by (simp add: viewport_def display_set_mode_def new_Surface_def Surface_get_rect_def
      SCREEN_SIZE_def)

lemma Player_init_eq:
  "Player_init pos spd =
     \<lparr>image_surf = make_image,
      rect = Rect (int_of_float (fst pos) - 50) (int_of_float (snd pos) - 50) 100 100,
      true_pos = (real_of_int (int_of_float (fst pos)), real_of_int (int_of_float (snd pos))),
      speed = spd\<rparr>"
  by (simp add: Player_init_def Let_def Rect_def Rect_center_def real_pair_def
      Rect_set_center_def make_image_def draw_on_def convert_alpha_def new_Surface_def
      Surface_get_rect_def Player_SIZE_def)

lemma new_player_eq:
  "new_player =
     \<lparr>image_surf = make_image, rect = Rect 200 200 100 100, true_pos = (250, 250),
      speed = 300\<rparr>"
  by (simp add: new_player_def viewport_eq Player_init_eq Rect_center_def real_pair_def Rect_def
      int_of_float_def)

lemma edge_player_eq:
  "edge_player =
     \<lparr>image_surf = make_image, rect = Rect 0 200 100 100, true_pos = (50, 250),
      speed = 300\<rparr>"
  by (simp add: edge_player_def Player_update_def Player_move_def Player_clamp_def Let_def
      integrate_def DIRECT_DICT_def move_key_def holding_def new_player_eq viewport_eq
      Rect_def Rect_center_def Rect_set_center_def Rect_contains_def Rect_clamp_ip_def
      clamp_axis_def c_div_def real_pair_def int_of_float_def)

lemma held_directions_cases:
  "held_directions ks =
     (if ks K_LEFT then [(-1, 0)] else []) @ (if ks K_RIGHT then [(1, 0)] else []) @
     (if ks K_UP then [(0, -1)] else []) @ (if ks K_DOWN then [(0, 1)] else [])"
  by (simp add: held_directions_def DIRECT_DICT_def)

lemmas eval_rect =
  Rect_def Rect_center_def Rect_set_center_def Rect_contains_def Rect_clamp_ip_def
  clamp_axis_def c_div_def real_pair_def int_of_float_def

lemmas eval_keys = held_directions_cases direction_sum_def holding_def

subsection \<open>The integration step\<close>

lemma foldl_move_key:
  "foldl (move_key ks spd dt) pos es =
     (fst pos +
        real_of_int (sum_list (map (\<lambda>e. fst (snd e)) (filter (\<lambda>e. ks (fst e)) es))) * spd * dt,
      snd pos +
        real_of_int (sum_list (map (\<lambda>e. snd (snd e)) (filter (\<lambda>e. ks (fst e)) es))) * spd * dt)"
proof (induction es arbitrary: pos)
  case Nil
  show ?case by simp
next
  case (Cons e es)
  show ?case
    unfolding foldl_Cons Cons.IH
    by (simp add: move_key_def algebra_simps)
qed

lemma integrate_sum:
  "integrate ks spd dt pos =
     (fst pos + real_of_int (fst (direction_sum ks)) * spd * dt,
      snd pos + real_of_int (snd (direction_sum ks)) * spd * dt)"
  by (simp add: integrate_def foldl_move_key direction_sum_def held_directions_def comp_def)


lemma integrate_zero_dt: "integrate ks spd 0 pos = pos"
  by (simp add: integrate_sum)

lemma Player_move_eq:
  "Player_move ks dt p =
     p\<lparr>true_pos := integrate ks (speed p) dt (true_pos p),
       rect := Rect_set_center (integrate ks (speed p) dt (true_pos p)) (rect p)\<rparr>"
  by (simp add: Player_move_def Let_def)

lemma move_displacement:
  "displacement (true_pos p) (true_pos (Player_move ks dt p)) =
     (real_of_int (fst (direction_sum ks)) * (speed p * dt),
      real_of_int (snd (direction_sum ks)) * (speed p * dt))"
  by (simp add: Player_move_eq integrate_sum displacement_def)

subsection \<open>Magnitudes\<close>

lemma magnitude_scaled:
  "magnitude (real_of_int a * c, real_of_int b * c) = sqrt (real_of_int (a\<^sup>2 + b\<^sup>2)) * \<bar>c\<bar>"
proof -
  have "(real_of_int a * c)\<^sup>2 + (real_of_int b * c)\<^sup>2 = real_of_int (a\<^sup>2 + b\<^sup>2) * c\<^sup>2"
    by (simp add: power_mult_distrib algebra_simps)
  then show ?thesis
    by (simp add: magnitude_def real_sqrt_mult)
qed

lemma magnitude_vertical: "magnitude (0, c) = \<bar>c\<bar>"
  by (simp add: magnitude_def)

lemma magnitude_origin: "magnitude (0, 0) = 0"
  by (simp add: magnitude_def)

lemma square_of_unit: "\<bar>a\<bar> = 1 \<Longrightarrow> a\<^sup>2 = (1::int)"
  by (metis abs_1 abs_power2 one_power2 power2_abs)

lemma perpendicular_sum:
  assumes "perpendicular_held ks"
  shows "\<bar>fst (direction_sum ks)\<bar> = 1 \<and> \<bar>snd (direction_sum ks)\<bar> = 1"
  using assms
  by (cases "ks K_LEFT"; cases "ks K_RIGHT"; cases "ks K_UP"; cases "ks K_DOWN")
     (simp_all add: perpendicular_held_def direction_sum_def held_directions_cases)

lemma one_sum:
  assumes "one_held ks"
  shows "\<bar>fst (direction_sum ks)\<bar> + \<bar>snd (direction_sum ks)\<bar> = 1"
  using assms
  by (cases "ks K_LEFT"; cases "ks K_RIGHT"; cases "ks K_UP"; cases "ks K_DOWN")
     (simp_all add: one_held_def direction_sum_def held_directions_cases)

lemma perpendicular_magnitude:
  assumes "perpendicular_held ks"
  shows "magnitude (displacement (true_pos p) (true_pos (Player_move ks dt p))) =
           sqrt 2 * \<bar>speed p * dt\<bar>"
proof -
  from perpendicular_sum[OF assms]
  have "(fst (direction_sum ks))\<^sup>2 + (snd (direction_sum ks))\<^sup>2 = 2"
    by (simp add: square_of_unit)
  then show ?thesis
    by (simp add: move_displacement magnitude_scaled)
qed

lemma one_magnitude:
  assumes "one_held ks"
  shows "magnitude (displacement (true_pos p) (true_pos (Player_move ks dt p))) =
           \<bar>speed p * dt\<bar>"
proof -
  from one_sum[OF assms]
  have "(\<bar>fst (direction_sum ks)\<bar> = 1 \<and> snd (direction_sum ks) = 0) \<or>
        (fst (direction_sum ks) = 0 \<and> \<bar>snd (direction_sum ks)\<bar> = 1)"
    by auto
  then have "(fst (direction_sum ks))\<^sup>2 + (snd (direction_sum ks))\<^sup>2 = 1"
    by (auto simp add: square_of_unit)
  then show ?thesis
    by (simp add: move_displacement magnitude_scaled)
qed

subsection \<open>Clamping\<close>

lemma clamp_axis_inside:
  assumes "0 < d" "d \<le> e"
  shows "b \<le> clamp_axis a d b e" "clamp_axis a d b e + d \<le> b + e" "clamp_axis a d b e < b + e"
  using assms by (auto simp add: clamp_axis_def c_div_def)

lemma clamp_ip_contained:
  assumes "0 < r_w r" "r_w r \<le> r_w b" "0 < r_h r" "r_h r \<le> r_h b"
  shows "Rect_contains b (Rect_clamp_ip b r)"
  using assms by (simp add: Rect_contains_def Rect_clamp_ip_def clamp_axis_inside)

lemma Player_clamp_inside: "Rect_contains sr (rect p) \<Longrightarrow> Player_clamp sr p = p"
  by (simp add: Player_clamp_def)

lemma Player_clamp_outside:
  "\<not> Rect_contains sr (rect p) \<Longrightarrow>
     Player_clamp sr p =
       p\<lparr>rect := Rect_clamp_ip sr (rect p),
         true_pos := real_pair (Rect_center (Rect_clamp_ip sr (rect p)))\<rparr>"
  by (simp add: Player_clamp_def Let_def)

lemma move_keeps_size:
  "r_w (rect (Player_move ks dt p)) = r_w (rect p)"
  "r_h (rect (Player_move ks dt p)) = r_h (rect p)"
  by (simp_all add: Player_move_eq Rect_set_center_def)

lemma clamp_keeps_size:
  "r_w (rect (Player_clamp sr p)) = r_w (rect p)"
  "r_h (rect (Player_clamp sr p)) = r_h (rect p)"
  by (simp_all add: Player_clamp_def Let_def Rect_clamp_ip_def)

lemma update_contained:
  assumes "0 < r_w (rect p)" "r_w (rect p) \<le> r_w b" "0 < r_h (rect p)" "r_h (rect p) \<le> r_h b"
  shows "Rect_contains b (rect (Player_update ks b dt p))"
proof (cases "Rect_contains b (rect (Player_move ks dt p))")
  case True
  then show ?thesis by (simp add: Player_update_def Player_clamp_inside)
next
  case False
  have "Rect_contains b (Rect_clamp_ip b (rect (Player_move ks dt p)))"
    by (rule clamp_ip_contained) (simp_all add: move_keeps_size assms)
  with False show ?thesis by (simp add: Player_update_def Player_clamp_outside)
qed

subsection \<open>What every player state satisfies\<close>

lemma in_sync_init: "in_sync (Player_init pos spd)"
  by (simp add: in_sync_def Player_init_def Let_def real_pair_def Rect_center_set_center)

lemma in_sync_move: "in_sync (Player_move ks dt p)"
  by (simp add: in_sync_def Player_move_eq Rect_center_set_center)

lemma in_sync_clamp: "in_sync p \<Longrightarrow> in_sync (Player_clamp sr p)"
  by (simp add: in_sync_def Player_clamp_def Let_def real_pair_def)

lemma in_sync_update: "in_sync (Player_update ks sr dt p)"
  by (simp add: Player_update_def in_sync_clamp in_sync_move)

lemma sized_init: "sized (Player_init pos spd)"
  by (simp add: sized_def Player_init_eq Rect_def Player_SIZE_def)

lemma sized_update: "sized p \<Longrightarrow> sized (Player_update ks sr dt p)"
  by (simp add: sized_def Player_update_def clamp_keeps_size move_keeps_size)

lemma sized_clamp: "sized p \<Longrightarrow> sized (Player_clamp sr p)"
  by (simp add: sized_def clamp_keeps_size)

lemma player_state_sized: "player_state p \<Longrightarrow> sized p"
  by (induction rule: player_state.induct)
     (simp_all add: sized_init sized_update sized_clamp Player_draw_def)

lemma player_state_in_sync: "player_state p \<Longrightarrow> in_sync p"
  by (induction rule: player_state.induct)
     (simp_all add: in_sync_init in_sync_update in_sync_clamp Player_draw_def)

lemma move_nowhere:
  assumes "in_sync p" "integrate ks (speed p) dt (true_pos p) = true_pos p"
  shows "Player_move ks dt p = p"
proof -
  have "Rect_set_center (true_pos p) (rect p) = rect p"
    using assms(1) by (simp add: in_sync_def Rect_set_center_same)
  then show ?thesis
    by (simp add: Player_move_eq assms(2))
qed

lemma update_nowhere:
  assumes "in_sync p" "Rect_contains sr (rect p)"
    "integrate ks (speed p) dt (true_pos p) = true_pos p"
  shows "Player_update ks sr dt p = p"
  by (simp add: Player_update_def move_nowhere[OF assms(1,3)] Player_clamp_inside assms(2))

subsection \<open>The App and its main loop\<close>

lemma handle_event_keeps:
  "screen_rect (handle_event now a ev) = screen_rect a"
  "player (handle_event now a ev) = player a"
  by (simp_all add: handle_event_def)

lemma event_loop_keeps:
  "screen_rect (event_loop evs now a) = screen_rect a \<and> player (event_loop evs now a) = player a"
  unfolding event_loop_def
  by (induction evs arbitrary: a) (simp_all add: handle_event_keeps)

lemma render_keeps:
  "screen_rect (render a) = screen_rect a" "player (render a) = player a"
  by (simp_all add: render_def Let_def Player_draw_def)

lemma App_init_eq:
  "screen_rect (App_init (display_set_mode SCREEN_SIZE) ks) = viewport"
  "player (App_init (display_set_mode SCREEN_SIZE) ks) = new_player"
  "done_flag (App_init (display_set_mode SCREEN_SIZE) ks) = False"
  "keys (App_init (display_set_mode SCREEN_SIZE) ks) = ks"
  by (simp_all add: App_init_def Let_def viewport_def new_player_def)

lemma new_player_inside: "Rect_contains viewport (rect new_player)"
  by (simp add: new_player_eq viewport_eq Rect_contains_def Rect_def)

lemma sized_fits:
  assumes "sized p"
  shows "0 < r_w (rect p)" "r_w (rect p) \<le> r_w viewport"
    "0 < r_h (rect p)" "r_h (rect p) \<le> r_h viewport"
  using assms by (simp_all add: sized_def Player_SIZE_def viewport_eq Rect_def)

lemma reachable_invariant:
  "reachable a \<Longrightarrow>
     screen_rect a = viewport \<and> sized (player a) \<and> in_sync (player a) \<and>
     Rect_contains viewport (rect (player a))"
proof (induction rule: reachable.induct)
  case (created ks)
  show ?case
    by (simp add: App_init_eq new_player_inside) (simp add: new_player_def sized_init in_sync_init)
next
  case (polled a evs now)
  then show ?case by (simp add: event_loop_keeps)
next
  case (updated a dt)
  then show ?case
    by (simp add: App_update_def sized_update in_sync_update update_contained sized_fits)
next
  case (rendered a)
  then show ?case by (simp add: render_keeps)
qed

lemma done_handle_event:
  "done_flag (handle_event now a ev) = (done_flag a \<or> ev = QUIT)"
  by (simp add: handle_event_def)

lemma done_event_loop:
  "done_flag (event_loop evs now a) = (done_flag a \<or> QUIT \<in> set evs)"
  unfolding event_loop_def
  by (induction evs arbitrary: a) (auto simp add: done_handle_event)

lemma done_App_update: "done_flag (App_update dt a) = done_flag a"
  by (simp add: App_update_def)

lemma done_render: "done_flag (render a) = done_flag a"
  by (simp add: render_def Let_def Player_draw_def)

lemma loop_body_trace:
  "\<not> done_flag a \<Longrightarrow> snd (loop_body f (a, dt)) = pass_calls (f, dt)"
  by (simp add: loop_body_def Let_def pass_calls_def polls_quit_def
      done_event_loop done_App_update done_render)



lemma loop_body_player:
  "player (fst (fst (loop_body f (a, dt)))) =
     Player_update (keys (event_loop (events f) (pressed f) a)) (screen_rect a) dt (player a)"
  by (simp add: loop_body_def Let_def render_keeps App_update_def event_loop_keeps)







lemma main_loop_first_pass:
  "\<not> done_flag a \<Longrightarrow>
     snd (main_loop a (f # fs)) =
       (False, Tick) # pass_calls (f, 0) @ snd (while_not_done fs (fst (loop_body f (a, 0))))"
  using loop_body_trace[of a f 0] by (simp add: main_loop_def case_prod_beta)

section \<open>The claims\<close>

text \<open>
  C1. For every starting exact position, every speed, every elapsed time and every
  combination of held keys, the exact position after the integration step of
  \<^verbatim>\<open>Player.update\<close> (the loop and the assignment to the rectangle, before clamping) is
  the prior exact position plus the sum of the direction vectors of the held keys,
  times the speed, times the elapsed time. Each direction vector has length one. The
  elapsed time need not be non-negative for this.
\<close>

theorem integration_adds_direction_sum:
  "true_pos (Player_move ks dt p) =
     (fst (true_pos p) + real_of_int (fst (direction_sum ks)) * speed p * dt,
      snd (true_pos p) + real_of_int (snd (direction_sum ks)) * speed p * dt)
   \<and> map (\<lambda>e. magnitude (real_pair (snd e))) DIRECT_DICT = [1, 1, 1, 1]"
proof
  show "true_pos (Player_move ks dt p) =
     (fst (true_pos p) + real_of_int (fst (direction_sum ks)) * speed p * dt,
      snd (true_pos p) + real_of_int (snd (direction_sum ks)) * speed p * dt)"
    by (simp add: Player_move_eq integrate_sum)
  show "map (\<lambda>e. magnitude (real_pair (snd e))) DIRECT_DICT = [1, 1, 1, 1]"
    by (simp add: DIRECT_DICT_def magnitude_def real_pair_def)
qed

theorem integration_adds_direction_sum_witness:
  "true_pos (Player_move (holding [K_UP, K_LEFT]) (1 / 1000) new_player) = (2497 / 10, 2497 / 10)"
  using integration_adds_direction_sum [of "holding [K_UP, K_LEFT]" "1 / 1000" new_player]
  by (simp add: new_player_eq eval_keys)

text \<open>
  C2. After every call of \<^verbatim>\<open>Player.update\<close> on a player state with the viewport of the
  program, the display rectangle lies within the viewport; and whenever the update
  clamps (the rectangle derived from the new exact position is not within the
  viewport), the exact position is the center of the clamped rectangle afterwards.
\<close>

theorem update_keeps_rect_in_viewport:
  assumes "player_state p"
  shows "Rect_contains viewport (rect (Player_update ks viewport dt p)) \<and>
         (\<not> Rect_contains viewport (rect (Player_move ks dt p)) \<longrightarrow>
            true_pos (Player_update ks viewport dt p) =
              real_pair (Rect_center (rect (Player_update ks viewport dt p))))"
proof
  have "sized p"
    using assms by (rule player_state_sized)
  then show "Rect_contains viewport (rect (Player_update ks viewport dt p))"
    by (simp add: update_contained sized_fits)
  show "\<not> Rect_contains viewport (rect (Player_move ks dt p)) \<longrightarrow>
            true_pos (Player_update ks viewport dt p) =
              real_pair (Rect_center (rect (Player_update ks viewport dt p)))"
    by (simp add: Player_update_def Player_clamp_outside)
qed

theorem update_keeps_rect_in_viewport_witness:
  "player_state new_player \<and>
   \<not> Rect_contains viewport (rect (Player_move (holding [K_LEFT]) (701 / 1000) new_player)) \<and>
   true_pos (Player_move (holding [K_LEFT]) (701 / 1000) new_player) = (397 / 10, 250) \<and>
   Rect_contains viewport (rect (Player_update (holding [K_LEFT]) viewport (701 / 1000) new_player)) \<and>
   true_pos (Player_update (holding [K_LEFT]) viewport (701 / 1000) new_player) = (50, 250)"
proof -
  let ?ks = "holding [K_LEFT]"
  have st: "player_state new_player"
    unfolding new_player_def by (rule player_state.constructed)
  have out: "\<not> Rect_contains viewport (rect (Player_move ?ks (701 / 1000) new_player))"
    by (simp add: Player_move_eq integrate_sum new_player_eq eval_keys viewport_eq eval_rect)
  have mv: "true_pos (Player_move ?ks (701 / 1000) new_player) = (397 / 10, 250)"
    by (simp add: Player_move_eq integrate_sum new_player_eq eval_keys)
  have r: "rect (Player_update ?ks viewport (701 / 1000) new_player) = Rect 0 200 100 100"
    by (simp add: Player_update_def Player_clamp_outside[OF out])
       (simp add: Player_move_eq integrate_sum new_player_eq eval_keys viewport_eq eval_rect)
  note th = update_keeps_rect_in_viewport [OF st, of ?ks "701 / 1000"]
  from th have inside: "Rect_contains viewport (rect (Player_update ?ks viewport (701 / 1000) new_player))"
    by (rule conjunct1)
  from th out have "true_pos (Player_update ?ks viewport (701 / 1000) new_player) =
      real_pair (Rect_center (rect (Player_update ?ks viewport (701 / 1000) new_player)))"
    by blast
  then have pos: "true_pos (Player_update ?ks viewport (701 / 1000) new_player) = (50, 250)"
    by (simp add: r Rect_def Rect_center_def real_pair_def)
  show ?thesis
    using st out mv inside pos by blast
qed

text \<open>
  C3, as it is written, fails: the displacement that one \<^verbatim>\<open>Player.update\<close> produces
  includes the clamping. At the left edge of the viewport, with up and left held for a
  tenth of a second, the player moves 30 up and not at all to the left; with left alone
  it does not move, and with up alone it moves 30 up. The diagonal displacement is
  \<open>sqrt 2\<close> times neither.
\<close>

theorem diagonal_at_edge_counterexample:
  "magnitude (displacement (true_pos edge_player)
      (true_pos (Player_update (holding [K_UP, K_LEFT]) viewport (1 / 10) edge_player)))
   \<noteq> sqrt 2 * magnitude (displacement (true_pos edge_player)
      (true_pos (Player_update (holding [K_LEFT]) viewport (1 / 10) edge_player)))
   \<and>
   magnitude (displacement (true_pos edge_player)
      (true_pos (Player_update (holding [K_UP, K_LEFT]) viewport (1 / 10) edge_player)))
   \<noteq> sqrt 2 * magnitude (displacement (true_pos edge_player)
      (true_pos (Player_update (holding [K_UP]) viewport (1 / 10) edge_player)))"
proof -
  have diag: "true_pos (Player_update (holding [K_UP, K_LEFT]) viewport (1 / 10) edge_player) = (50, 220)"
    by (simp add: edge_player_eq Player_update_def Player_move_eq integrate_sum eval_keys
        Player_clamp_def Let_def viewport_eq eval_rect)
  have left: "true_pos (Player_update (holding [K_LEFT]) viewport (1 / 10) edge_player) = (50, 250)"
    by (simp add: edge_player_eq Player_update_def Player_move_eq integrate_sum eval_keys
        Player_clamp_def Let_def viewport_eq eval_rect)
  have up: "true_pos (Player_update (holding [K_UP]) viewport (1 / 10) edge_player) = (50, 220)"
    by (simp add: edge_player_eq Player_update_def Player_move_eq integrate_sum eval_keys
        Player_clamp_def Let_def viewport_eq eval_rect)
  have start: "true_pos edge_player = (50, 250)"
    by (simp add: edge_player_eq)
  have "sqrt 2 \<noteq> 1"
    by simp
  then show ?thesis
    by (simp add: diag left up start displacement_def magnitude_vertical magnitude_origin)
qed

text \<open>
  C3, amended. For every speed and every elapsed time, when exactly two perpendicular
  directional keys are held and the update does not clamp, the displacement of the
  exact position that one \<^verbatim>\<open>Player.update\<close> produces has \<open>sqrt 2\<close> times the magnitude
  of the displacement produced, from the same state and with the same elapsed time,
  when exactly one directional key is held and the update does not clamp. Without the
  clamping this is the displacement of the integration step, which always has these
  magnitudes.
\<close>

theorem diagonal_is_sqrt2_times_axis:
  assumes "perpendicular_held ks2" and "one_held ks1"
    and "Rect_contains sr (rect (Player_move ks2 dt p))"
    and "Rect_contains sr (rect (Player_move ks1 dt p))"
  shows "magnitude (displacement (true_pos p) (true_pos (Player_update ks2 sr dt p))) =
           sqrt 2 * magnitude (displacement (true_pos p) (true_pos (Player_update ks1 sr dt p)))
         \<and> magnitude (displacement (true_pos p) (true_pos (Player_move ks2 dt p))) =
           sqrt 2 * magnitude (displacement (true_pos p) (true_pos (Player_move ks1 dt p)))"
proof -
  have "Player_update ks2 sr dt p = Player_move ks2 dt p"
    and "Player_update ks1 sr dt p = Player_move ks1 dt p"
    using assms(3,4) by (simp_all add: Player_update_def Player_clamp_inside)
  then show ?thesis
    by (simp add: perpendicular_magnitude[OF assms(1)] one_magnitude[OF assms(2)])
qed

theorem diagonal_is_sqrt2_times_axis_witness:
  "perpendicular_held (holding [K_UP, K_LEFT]) \<and> one_held (holding [K_LEFT]) \<and>
   Rect_contains viewport (rect (Player_move (holding [K_UP, K_LEFT]) (1 / 10) new_player)) \<and>
   Rect_contains viewport (rect (Player_move (holding [K_LEFT]) (1 / 10) new_player)) \<and>
   true_pos (Player_update (holding [K_UP, K_LEFT]) viewport (1 / 10) new_player) = (220, 220) \<and>
   true_pos (Player_update (holding [K_LEFT]) viewport (1 / 10) new_player) = (220, 250) \<and>
   magnitude (displacement (true_pos new_player)
      (true_pos (Player_update (holding [K_UP, K_LEFT]) viewport (1 / 10) new_player))) =
   sqrt 2 * magnitude (displacement (true_pos new_player)
      (true_pos (Player_update (holding [K_LEFT]) viewport (1 / 10) new_player)))"
proof -
  have h2: "perpendicular_held (holding [K_UP, K_LEFT])"
    by (simp add: perpendicular_held_def eval_keys)
  have h1: "one_held (holding [K_LEFT])"
    by (simp add: one_held_def eval_keys)
  have in2: "Rect_contains viewport (rect (Player_move (holding [K_UP, K_LEFT]) (1 / 10) new_player))"
    by (simp add: Player_move_eq integrate_sum new_player_eq eval_keys viewport_eq eval_rect)
  have in1: "Rect_contains viewport (rect (Player_move (holding [K_LEFT]) (1 / 10) new_player))"
    by (simp add: Player_move_eq integrate_sum new_player_eq eval_keys viewport_eq eval_rect)
  have p2: "true_pos (Player_update (holding [K_UP, K_LEFT]) viewport (1 / 10) new_player) = (220, 220)"
    by (simp add: Player_update_def Player_clamp_inside[OF in2])
       (simp add: Player_move_eq integrate_sum new_player_eq eval_keys)
  have p1: "true_pos (Player_update (holding [K_LEFT]) viewport (1 / 10) new_player) = (220, 250)"
    by (simp add: Player_update_def Player_clamp_inside[OF in1])
       (simp add: Player_move_eq integrate_sum new_player_eq eval_keys)
  from diagonal_is_sqrt2_times_axis [OF h2 h1 in2 in1]
  have "magnitude (displacement (true_pos new_player)
      (true_pos (Player_update (holding [K_UP, K_LEFT]) viewport (1 / 10) new_player))) =
   sqrt 2 * magnitude (displacement (true_pos new_player)
      (true_pos (Player_update (holding [K_LEFT]) viewport (1 / 10) new_player)))"
    by (rule conjunct1)
  with h2 h1 in2 in1 p2 p1 show ?thesis
    by blast
qed

text \<open>
  C4. For every player state whose display rectangle is within the viewport and every
  combination of held keys, \<^verbatim>\<open>Player.update\<close> with an elapsed time of zero leaves the
  exact position and the display rectangle as they are.
\<close>

theorem zero_dt_leaves_position:
  assumes "player_state p" and "Rect_contains sr (rect p)"
  shows "true_pos (Player_update ks sr 0 p) = true_pos p \<and>
         rect (Player_update ks sr 0 p) = rect p"
proof -
  have "in_sync p"
    using assms(1) by (rule player_state_in_sync)
  then have "Player_update ks sr 0 p = p"
    using assms(2) by (simp add: update_nowhere integrate_zero_dt)
  then show ?thesis by simp
qed

theorem zero_dt_leaves_position_witness:
  "player_state edge_player \<and> Rect_contains viewport (rect edge_player) \<and>
   true_pos (Player_update (holding [K_UP, K_LEFT]) viewport 0 edge_player) = (50, 250) \<and>
   rect (Player_update (holding [K_UP, K_LEFT]) viewport 0 edge_player) = Rect 0 200 100 100"
proof -
  have "player_state new_player"
    unfolding new_player_def by (rule player_state.constructed)
  then have st: "player_state edge_player"
    unfolding edge_player_def by (rule player_state.after_update)
  have inside: "Rect_contains viewport (rect edge_player)"
    by (simp add: edge_player_eq viewport_eq Rect_contains_def Rect_def)
  from zero_dt_leaves_position [OF st inside, of "holding [K_UP, K_LEFT]"]
  have "true_pos (Player_update (holding [K_UP, K_LEFT]) viewport 0 edge_player) = (50, 250)"
    and "rect (Player_update (holding [K_UP, K_LEFT]) viewport 0 edge_player) = Rect 0 200 100 100"
    by (simp_all add: edge_player_eq)
  with st inside show ?thesis
    by blast
qed



text \<open>
  C6. The first pass of the main loop calls update with an elapsed time of exactly
  zero, and the player is where the App created it after that pass, whatever keys are
  held when the App is created and in the first frame.
\<close>

theorem first_pass_has_zero_dt:
  "snd (main ks (f # fs)) =
     (False, Tick) # (False, EventLoop) # (polls_quit f, Update 0) # (polls_quit f, Render) #
     (polls_quit f, Tick) #
     snd (while_not_done fs (fst (loop_body f (App_init (display_set_mode SCREEN_SIZE) ks, 0))))
   \<and> true_pos (player (fst (fst (loop_body f (App_init (display_set_mode SCREEN_SIZE) ks, 0))))) =
       true_pos (player (App_init (display_set_mode SCREEN_SIZE) ks))
   \<and> rect (player (fst (fst (loop_body f (App_init (display_set_mode SCREEN_SIZE) ks, 0))))) =
       rect (player (App_init (display_set_mode SCREEN_SIZE) ks))"
proof -
  let ?a = "App_init (display_set_mode SCREEN_SIZE) ks"
  have nd: "\<not> done_flag ?a"
    by (simp add: App_init_eq)
  have calls: "snd (main ks (f # fs)) =
     (False, Tick) # (False, EventLoop) # (polls_quit f, Update 0) # (polls_quit f, Render) #
     (polls_quit f, Tick) # snd (while_not_done fs (fst (loop_body f (?a, 0))))"
    using main_loop_first_pass [OF nd, of f fs]
    by (simp add: main_def pass_calls_def Let_def)
  have "reachable ?a"
    by (rule reachable.created)
  from reachable_invariant [OF this]
  have "in_sync (player ?a)" and "Rect_contains (screen_rect ?a) (rect (player ?a))"
    by simp_all
  then have "player (fst (fst (loop_body f (?a, 0)))) = player ?a"
    by (simp add: loop_body_player update_nowhere integrate_zero_dt)
  with calls show ?thesis
    by simp
qed

theorem first_pass_has_zero_dt_witness:
  "take 3 (snd (main (holding [K_RIGHT]) [key_frame])) =
     [(False, Tick), (False, EventLoop), (False, Update 0)]
   \<and> true_pos (player (fst (fst (loop_body key_frame
        (App_init (display_set_mode SCREEN_SIZE) (holding [K_RIGHT]), 0))))) = (250, 250)"
  using first_pass_has_zero_dt [of "holding [K_RIGHT]" key_frame "[]"]
  by (simp add: App_init_eq new_player_eq polls_quit_def key_frame_def)




text \<open>
  C8. When the display rectangle derived from the new exact position is within the
  viewport, \<^verbatim>\<open>Player.clamp\<close> changes nothing: the update ends with the exact position
  that the integration step computed, fraction included, and with the rectangle derived
  from it. \<^verbatim>\<open>clamp\<close> changes a player only when its rectangle is not within the
  viewport.
\<close>

theorem clamp_inside_is_noop:
  "(Rect_contains sr (rect p) \<longrightarrow> Player_clamp sr p = p)
   \<and> (Rect_contains sr (rect (Player_move ks dt p)) \<longrightarrow>
        Player_update ks sr dt p = Player_move ks dt p \<and>
        true_pos (Player_update ks sr dt p) = integrate ks (speed p) dt (true_pos p) \<and>
        rect (Player_update ks sr dt p) =
          Rect_set_center (integrate ks (speed p) dt (true_pos p)) (rect p))
   \<and> (Player_clamp sr p \<noteq> p \<longrightarrow> \<not> Rect_contains sr (rect p))"
proof (intro conjI impI)
  assume "Rect_contains sr (rect p)"
  then show "Player_clamp sr p = p"
    by (rule Player_clamp_inside)
next
  assume inside: "Rect_contains sr (rect (Player_move ks dt p))"
  then show eq: "Player_update ks sr dt p = Player_move ks dt p"
    by (simp add: Player_update_def Player_clamp_inside)
  show "true_pos (Player_update ks sr dt p) = integrate ks (speed p) dt (true_pos p)"
    by (simp add: eq Player_move_eq)
  show "rect (Player_update ks sr dt p) =
          Rect_set_center (integrate ks (speed p) dt (true_pos p)) (rect p)"
    by (simp add: eq Player_move_eq)
next
  assume "Player_clamp sr p \<noteq> p"
  then show "\<not> Rect_contains sr (rect p)"
    using Player_clamp_inside by blast
qed

theorem clamp_inside_is_noop_witness:
  "Rect_contains viewport (rect (Player_move (holding [K_UP, K_LEFT]) (1 / 1000) new_player)) \<and>
   true_pos (Player_update (holding [K_UP, K_LEFT]) viewport (1 / 1000) new_player) =
     (2497 / 10, 2497 / 10) \<and>
   rect (Player_update (holding [K_UP, K_LEFT]) viewport (1 / 1000) new_player) =
     Rect 199 199 100 100"
proof -
  let ?ks = "holding [K_UP, K_LEFT]"
  have inside: "Rect_contains viewport (rect (Player_move ?ks (1 / 1000) new_player))"
    by (simp add: Player_move_eq integrate_sum new_player_eq eval_keys viewport_eq eval_rect)
  from clamp_inside_is_noop [of viewport new_player ?ks "1 / 1000"] inside
  have "true_pos (Player_update ?ks viewport (1 / 1000) new_player) =
          integrate ?ks (speed new_player) (1 / 1000) (true_pos new_player)"
    and "rect (Player_update ?ks viewport (1 / 1000) new_player) =
          Rect_set_center (integrate ?ks (speed new_player) (1 / 1000) (true_pos new_player))
            (rect new_player)"
    by blast+
  then have "true_pos (Player_update ?ks viewport (1 / 1000) new_player) = (2497 / 10, 2497 / 10)"
    and "rect (Player_update ?ks viewport (1 / 1000) new_player) = Rect 199 199 100 100"
    by (simp_all add: integrate_sum new_player_eq eval_keys eval_rect)
  with inside show ?thesis
    by blast
qed

text \<open>
  C9. Whenever \<^verbatim>\<open>Player.clamp\<close> clamps, the rectangle becomes the clamped rectangle and
  the exact position becomes its integer center: both coordinates of the exact position
  are whole numbers afterwards, whatever fraction it had. An update clamps through
  this call, on the player as the integration step leaves it.
\<close>

theorem clamp_resets_to_integer_center:
  assumes "\<not> Rect_contains sr (rect p)"
  shows "rect (Player_clamp sr p) = Rect_clamp_ip sr (rect p) \<and>
         true_pos (Player_clamp sr p) = real_pair (Rect_center (rect (Player_clamp sr p))) \<and>
         fst (true_pos (Player_clamp sr p)) \<in> \<int> \<and> snd (true_pos (Player_clamp sr p)) \<in> \<int>"
  using assms by (simp add: Player_clamp_outside real_pair_def)

theorem clamp_resets_to_integer_center_witness:
  "true_pos (Player_move (holding [K_LEFT]) (701 / 1000) new_player) = (397 / 10, 250) \<and>
   \<not> Rect_contains viewport (rect (Player_move (holding [K_LEFT]) (701 / 1000) new_player)) \<and>
   rect (Player_clamp viewport (Player_move (holding [K_LEFT]) (701 / 1000) new_player)) =
     Rect 0 200 100 100 \<and>
   true_pos (Player_clamp viewport (Player_move (holding [K_LEFT]) (701 / 1000) new_player)) =
     (50, 250)"
proof -
  let ?q = "Player_move (holding [K_LEFT]) (701 / 1000) new_player"
  have mv: "true_pos ?q = (397 / 10, 250)"
    by (simp add: Player_move_eq integrate_sum new_player_eq eval_keys)
  have r: "rect ?q = Rect (-11) 200 100 100"
    by (simp add: Player_move_eq integrate_sum new_player_eq eval_keys eval_rect)
  have out: "\<not> Rect_contains viewport (rect ?q)"
    by (simp add: r viewport_eq Rect_contains_def Rect_def)
  from clamp_resets_to_integer_center [OF out]
  have "rect (Player_clamp viewport ?q) = Rect_clamp_ip viewport (rect ?q)"
    and "true_pos (Player_clamp viewport ?q) = real_pair (Rect_center (rect (Player_clamp viewport ?q)))"
    by blast+
  then have "rect (Player_clamp viewport ?q) = Rect 0 200 100 100"
    and "true_pos (Player_clamp viewport ?q) = (50, 250)"
    by (simp_all add: r viewport_eq Rect_def Rect_clamp_ip_def clamp_axis_def Rect_center_def
        real_pair_def)
  with mv out show ?thesis
    by blast
qed

text \<open>
  C10. \<^verbatim>\<open>Player.update\<close> changes only the exact position and the display rectangle:
  the speed and the image of the player are the same after every \<^verbatim>\<open>update\<close>, \<^verbatim>\<open>clamp\<close>
  and \<^verbatim>\<open>draw\<close>, and \<^verbatim>\<open>draw\<close> leaves the whole player, its position included, as it is.
\<close>

theorem update_changes_position_only:
  "Player_update ks sr dt p =
     p\<lparr>true_pos := true_pos (Player_update ks sr dt p),
       rect := rect (Player_update ks sr dt p)\<rparr>
   \<and> speed (Player_update ks sr dt p) = speed p
   \<and> image_surf (Player_update ks sr dt p) = image_surf p
   \<and> speed (Player_clamp sr p) = speed p
   \<and> image_surf (Player_clamp sr p) = image_surf p
   \<and> fst (Player_draw target p) = p"
  by (simp add: Player_update_def Player_clamp_def Player_move_eq Player_draw_def Let_def)

theorem update_changes_position_only_witness:
  "speed (Player_update (holding [K_LEFT]) viewport 1 new_player) = 300 \<and>
   image_surf (Player_update (holding [K_LEFT]) viewport 1 new_player) = make_image \<and>
   fst (Player_draw (display_set_mode SCREEN_SIZE) edge_player) = edge_player"
  using update_changes_position_only
    [of "holding [K_LEFT]" viewport 1 new_player "display_set_mode SCREEN_SIZE"]
    update_changes_position_only
    [of "holding [K_LEFT]" viewport 1 edge_player "display_set_mode SCREEN_SIZE"]
  by (simp add: new_player_eq)

end
